theory Spec2Isabelle
  imports Main "HOL-Library.Word" "HOL-Library.Sublist"
begin

unbundle bit_operations_syntax

section \<open>Configuration\<close>

text \<open>
  The constants that \<^verbatim>\<open>ALL/configLoader.py\<close> reads from \<^verbatim>\<open>config.ini\<close> with
  \<^verbatim>\<open>get_int\<close>. They are arbitrary Python integers, so every definition below takes the
  configuration as an argument. \<^verbatim>\<open>default_config\<close> holds the values of
  \<^verbatim>\<open>DEFAULT_CONFIG["download"]\<close>.
\<close>

record config =
  MAX_RETRIES :: int
  BASE_DELAY :: int
  CHUNK_SIZE_SMALL :: int
  CHUNK_SIZE_THRESHOLD :: int
  CHUNK_COUNT_SMALL :: int

definition default_config :: config where
  "default_config = \<lparr>MAX_RETRIES = 5, BASE_DELAY = 5, CHUNK_SIZE_SMALL = 1048576,
     CHUNK_SIZE_THRESHOLD = 1048576, CHUNK_COUNT_SMALL = 3\<rparr>"


section \<open>konachan/api.py: get\_data\<close>

subsection \<open>What one pass through the try block can meet\<close>

text \<open>
  The exception classes that the handlers of \<^verbatim>\<open>get_data\<close> tell apart, in the order of the
  \<^verbatim>\<open>except\<close> clauses. \<open>HTTPError s\<close> carries \<^verbatim>\<open>getattr(e.response, 'status_code', None)\<close>:
  \<open>None\<close> when the exception has no response attached.
\<close>

datatype exc = Timeout | ConnectionError | HTTPError "int option" | RequestException
  | ValueError | OtherException

datatype 'd json_body = JsonInvalid | JsonNone | JsonValue 'd

record 'd response =
  status_code :: int
  content_empty :: bool
  json :: "'d json_body"

text \<open>One call of \<^verbatim>\<open>client.get\<close>: it raises, or it returns a response.\<close>

datatype 'd attempt = Raises exc | Responds "'d response"

text \<open>Exceptions that no handler of \<^verbatim>\<open>get_data\<close> catches: \<^verbatim>\<open>time.sleep\<close> raises
  ValueError on a negative delay, and it is called inside the handlers.\<close>

datatype abort = SleepValueError

text \<open>
  The module state and the effects: the cached session \<^verbatim>\<open>_http_client\<close> (\<open>None\<close>, or the
  number of the session in use), how many sessions were created, the \<^verbatim>\<open>client.get\<close> calls
  (page, session), the delays passed to \<^verbatim>\<open>time.sleep\<close>, and the payloads handed to
  \<^verbatim>\<open>save_data\<close>. \<^verbatim>\<open>save_data\<close> catches every exception of its own body, so the call is
  recorded and never raises.
\<close>

record 'd world =
  http_client :: "nat option"
  sessions_created :: nat
  requests :: "(int \<times> nat) list"
  slept :: "int list"
  saved :: "'d list"

text \<open>The local variables of the page loop.\<close>

record locals =
  retry_count :: nat
  page_success :: bool
  success_pages :: int
  failed_pages :: int

datatype ctl = Break | Next

definition get_http_client :: "'d world \<Rightarrow> nat \<times> 'd world" where
  "get_http_client w =
     (case http_client w of
        Some c \<Rightarrow> (c, w)
      | None \<Rightarrow> (sessions_created w,
          w\<lparr>http_client := Some (sessions_created w),
            sessions_created := Suc (sessions_created w)\<rparr>))"

definition reset_http_client :: "'d world \<Rightarrow> 'd world" where
  "reset_http_client w = w\<lparr>http_client := None\<rparr>"

definition sleep :: "int \<Rightarrow> 'd world \<Rightarrow> abort + 'd world" where
  "sleep secs w =
     (if secs < 0 then Inl SleepValueError else Inr (w\<lparr>slept := slept w @ [secs]\<rparr>))"

definition save_data :: "'d \<Rightarrow> 'd world \<Rightarrow> 'd world" where
  "save_data d w = w\<lparr>saved := saved w @ [d]\<rparr>"

text \<open>
  The try block, lines 115-177: a status other than 200 raises
  \<^verbatim>\<open>requests.HTTPError(f"HTTP ...")\<close>, built without a \<^verbatim>\<open>response\<close> argument, so its
  \<^verbatim>\<open>response\<close> attribute is \<^verbatim>\<open>None\<close>; an empty body, an undecodable body and a JSON
  \<^verbatim>\<open>null\<close> raise ValueError.
\<close>

fun try_request :: "'d attempt \<Rightarrow> exc + 'd" where
  "try_request (Raises e) = Inl e"
| "try_request (Responds r) =
     (if status_code r \<noteq> 200 then Inl (HTTPError None)
      else if content_empty r then Inl ValueError
      else case json r of
             JsonInvalid \<Rightarrow> Inl ValueError
           | JsonNone \<Rightarrow> Inl ValueError
           | JsonValue d \<Rightarrow> Inr d)"

text \<open>The delay \<^verbatim>\<open>BASE_DELAY * (2 ** (retry_count - 1))\<close>.\<close>

definition delay :: "config \<Rightarrow> nat \<Rightarrow> int" where
  "delay cfg rc = BASE_DELAY cfg * 2 ^ (rc - 1)"

text \<open>
  The handlers of Timeout, ConnectionError, RequestException and Exception have the same
  body: count the retry and, if another attempt is left, sleep.
\<close>

definition backoff :: "config \<Rightarrow> locals \<times> 'd world \<Rightarrow> abort + ctl \<times> locals \<times> 'd world" where
  "backoff cfg s =
     (case s of (l, w) \<Rightarrow>
        let l1 = l\<lparr>retry_count := retry_count l + 1\<rparr> in
        if int (retry_count l1) < MAX_RETRIES cfg then
          (case sleep (delay cfg (retry_count l1)) w of
             Inl a \<Rightarrow> Inl a
           | Inr w1 \<Rightarrow> Inr (Next, l1, w1))
        else Inr (Next, l1, w))"

fun handler :: "config \<Rightarrow> exc \<Rightarrow> locals \<times> 'd world \<Rightarrow> abort + ctl \<times> locals \<times> 'd world" where
  "handler cfg Timeout s = backoff cfg s"
| "handler cfg ConnectionError s = backoff cfg s"
| "handler cfg (HTTPError status) (l, w) =
     (if status = Some 403 then
        (let w1 = reset_http_client w;
             l1 = l\<lparr>retry_count := retry_count l + 1\<rparr> in
         if int (retry_count l1) < MAX_RETRIES cfg then
           (case sleep (delay cfg (retry_count l1)) w1 of
              Inl a \<Rightarrow> Inl a
            | Inr w2 \<Rightarrow> Inr (Next, l1, w2))
         else Inr (Break, l1\<lparr>failed_pages := failed_pages l1 + 1\<rparr>, w1))
      else if (case status of None \<Rightarrow> False | Some c \<Rightarrow> c \<noteq> 0 \<and> c \<ge> 500) then
        (let l1 = l\<lparr>retry_count := retry_count l + 1\<rparr> in
         if int (retry_count l1) < MAX_RETRIES cfg then
           (case sleep (delay cfg (retry_count l1)) w of
              Inl a \<Rightarrow> Inl a
            | Inr w1 \<Rightarrow> Inr (Next, l1, w1))
         else Inr (Break, l1\<lparr>failed_pages := failed_pages l1 + 1\<rparr>, w))
      else Inr (Break, l\<lparr>failed_pages := failed_pages l + 1\<rparr>, w))"
| "handler cfg RequestException s = backoff cfg s"
| "handler cfg ValueError (l, w) = Inr (Break, l\<lparr>failed_pages := failed_pages l + 1\<rparr>, w)"
| "handler cfg OtherException s = backoff cfg s"

text \<open>One iteration of the retry loop for page \<open>p\<close>, given what the attempt meets.\<close>

definition attempt_step ::
  "config \<Rightarrow> int \<Rightarrow> 'd attempt \<Rightarrow> locals \<times> 'd world \<Rightarrow> abort + ctl \<times> locals \<times> 'd world" where
  "attempt_step cfg p a s =
     (case s of (l, w) \<Rightarrow>
        (case get_http_client w of (c, w1) \<Rightarrow>
           let w2 = w1\<lparr>requests := requests w1 @ [(p, c)]\<rparr> in
           (case try_request a of
              Inr d \<Rightarrow> Inr (Break, l\<lparr>page_success := True, success_pages := success_pages l + 1\<rparr>,
                              save_data d w2)
            | Inl e \<Rightarrow> handler cfg e (l, w2))))"

lemma backoff_Next:
  "backoff cfg (l, w) = Inr (c, l', w') \<Longrightarrow> retry_count l' = Suc (retry_count l)"
  by (auto simp: backoff_def Let_def split: sum.splits if_splits)

lemma handler_Next:
  "handler cfg e (l, w) = Inr (Next, l', w') \<Longrightarrow> retry_count l' = Suc (retry_count l)"
  by (cases e) (auto simp: Let_def dest: backoff_Next split: sum.splits if_splits)

lemma attempt_step_Next:
  "attempt_step cfg p a (l, w) = Inr (Next, l', w') \<Longrightarrow> retry_count l' = Suc (retry_count l)"
  by (auto simp: attempt_step_def Let_def dest: handler_Next split: sum.splits prod.splits)

text \<open>
  \<^verbatim>\<open>while retry_count < MAX_RETRIES\<close>; \<open>fetch k\<close> is what attempt number \<open>k\<close> of this page
  meets.
\<close>

function retry_loop ::
  "config \<Rightarrow> int \<Rightarrow> (nat \<Rightarrow> 'd attempt) \<Rightarrow> nat \<Rightarrow> locals \<times> 'd world \<Rightarrow> abort + locals \<times> 'd world" where
  "retry_loop cfg p fetch k (l, w) =
     (if int (retry_count l) < MAX_RETRIES cfg then
        (case attempt_step cfg p (fetch k) (l, w) of
           Inl a \<Rightarrow> Inl a
         | Inr (Break, l', w') \<Rightarrow> Inr (l', w')
         | Inr (Next, l', w') \<Rightarrow> retry_loop cfg p fetch (Suc k) (l', w'))
      else Inr (l, w))"
  by pat_completeness auto
termination
  by (relation "measure (\<lambda>(cfg, p, fetch, k, l, w). nat (MAX_RETRIES cfg - int (retry_count l)))")
     (auto dest!: attempt_step_Next)

declare retry_loop.simps [simp del]

text \<open>The body of \<^verbatim>\<open>for page_num in range(start_page, end_page + 1)\<close>.\<close>

fun page_loop ::
  "config \<Rightarrow> (int \<Rightarrow> nat \<Rightarrow> 'd attempt) \<Rightarrow> int \<Rightarrow> int list \<Rightarrow> (int \<times> int) \<times> 'd world
     \<Rightarrow> abort + (int \<times> int) \<times> 'd world" where
  "page_loop cfg env end_page [] s = Inr s"
| "page_loop cfg env end_page (p # ps) ((succ, fail), w) =
     (case retry_loop cfg p (env p) 0
             (\<lparr>retry_count = 0, page_success = False, success_pages = succ, failed_pages = fail\<rparr>, w) of
        Inl a \<Rightarrow> Inl a
      | Inr (l, w1) \<Rightarrow>
          let fail' = (if \<not> page_success l \<and> int (retry_count l) \<ge> MAX_RETRIES cfg
                       then failed_pages l + 1 else failed_pages l) in
          (case (if p < end_page then sleep 1 w1 else Inr w1) of
             Inl a \<Rightarrow> Inl a
           | Inr w2 \<Rightarrow> page_loop cfg env end_page ps ((success_pages l, fail'), w2)))"

record stats =
  success :: int
  failed :: int
  total :: int

definition get_data ::
  "config \<Rightarrow> (int \<Rightarrow> nat \<Rightarrow> 'd attempt) \<Rightarrow> 'd world \<Rightarrow> int \<Rightarrow> int \<Rightarrow> int \<Rightarrow> abort + stats \<times> 'd world" where
  "get_data cfg env w start_page end_page limit =
     (if start_page < 1 \<or> end_page < 1 \<or> limit < 1 then Inr (\<lparr>success = 0, failed = 0, total = 0\<rparr>, w)
      else if start_page > end_page then Inr (\<lparr>success = 0, failed = 0, total = 0\<rparr>, w)
      else case page_loop cfg env end_page [start_page..end_page] ((0, 0), w) of
             Inl a \<Rightarrow> Inl a
           | Inr ((s, f), w') \<Rightarrow>
               Inr (\<lparr>success = s, failed = f, total = end_page - start_page + 1\<rparr>, w'))"

definition world0 :: "'d world" where
  "world0 = \<lparr>http_client = None, sessions_created = 0, requests = [], slept = [], saved = []\<rparr>"



text \<open>An outcome for the examples: page 1 times out three times and is then answered, every
  other page is answered with status 404.\<close>

definition example_fetch :: "int \<Rightarrow> nat \<Rightarrow> unit attempt" where
  "example_fetch p k =
     (if p = 1 then
        (if k < 3 then Raises Timeout
         else Responds \<lparr>status_code = 200, content_empty = False, json = JsonValue ()\<rparr>)
      else Responds \<lparr>status_code = 404, content_empty = False, json = JsonValue ()\<rparr>)"

section \<open>Bytes and text\<close>

text \<open>
  A Python \<^verbatim>\<open>bytes\<close> value is a list of 8-bit words; a Python \<^verbatim>\<open>str\<close> is the list of its
  code points, so that \<^verbatim>\<open>len\<close> counts what Python counts. \<open>ascii\<close> writes a literal.
\<close>

type_synonym byte = "8 word"
type_synonym bytes = "byte list"
type_synonym pystr = "nat list"

definition ascii :: "string \<Rightarrow> pystr" where
  "ascii s = map of_char s"

text \<open>
  \<^verbatim>\<open>str.encode()\<close> and \<^verbatim>\<open>bytes.decode()\<close> with the default codec, UTF-8 in strict mode:
  \<open>None\<close> is UnicodeEncodeError (a surrogate) and UnicodeDecodeError (an ill-formed
  sequence). The decoder works on the values of the bytes.
\<close>

fun utf8_encode :: "pystr \<Rightarrow> bytes option" where
  "utf8_encode [] = Some []"
| "utf8_encode (c # cs) =
     (if c < 0x80 then map_option (\<lambda>r. of_nat c # r) (utf8_encode cs)
      else if c < 0x800 then
        map_option (\<lambda>r. of_nat (0xC0 + c div 64) # of_nat (0x80 + c mod 64) # r) (utf8_encode cs)
      else if c < 0x10000 then
        (if 0xD800 \<le> c \<and> c \<le> 0xDFFF then None
         else map_option (\<lambda>r. of_nat (0xE0 + c div 4096) # of_nat (0x80 + c div 64 mod 64)
                                # of_nat (0x80 + c mod 64) # r) (utf8_encode cs))
      else if c < 0x110000 then
        map_option (\<lambda>r. of_nat (0xF0 + c div 262144) # of_nat (0x80 + c div 4096 mod 64)
                          # of_nat (0x80 + c div 64 mod 64) # of_nat (0x80 + c mod 64) # r)
          (utf8_encode cs)
      else None)"

definition continuation :: "nat \<Rightarrow> bool" where
  "continuation b \<longleftrightarrow> 0x80 \<le> b \<and> b \<le> 0xBF"

fun utf8_decode_values :: "nat list \<Rightarrow> pystr option" where
  "utf8_decode_values [] = Some []"
| "utf8_decode_values (b0 # bs) =
     (if b0 < 0x80 then map_option ((#) b0) (utf8_decode_values bs)
      else if 0xC2 \<le> b0 \<and> b0 \<le> 0xDF then
        (case bs of
           b1 # r \<Rightarrow>
             if continuation b1
             then map_option ((#) ((b0 - 0xC0) * 64 + (b1 - 0x80))) (utf8_decode_values r)
             else None
         | _ \<Rightarrow> None)
      else if 0xE0 \<le> b0 \<and> b0 \<le> 0xEF then
        (case bs of
           b1 # b2 # r \<Rightarrow>
             if (if b0 = 0xE0 then 0xA0 else 0x80) \<le> b1 \<and> b1 \<le> (if b0 = 0xED then 0x9F else 0xBF)
                \<and> continuation b2
             then map_option ((#) ((b0 - 0xE0) * 4096 + (b1 - 0x80) * 64 + (b2 - 0x80)))
                    (utf8_decode_values r)
             else None
         | _ \<Rightarrow> None)
      else if 0xF0 \<le> b0 \<and> b0 \<le> 0xF4 then
        (case bs of
           b1 # b2 # b3 # r \<Rightarrow>
             if (if b0 = 0xF0 then 0x90 else 0x80) \<le> b1 \<and> b1 \<le> (if b0 = 0xF4 then 0x8F else 0xBF)
                \<and> continuation b2 \<and> continuation b3
             then map_option ((#) ((b0 - 0xF0) * 262144 + (b1 - 0x80) * 4096 + (b2 - 0x80) * 64
                                    + (b3 - 0x80)))
                    (utf8_decode_values r)
             else None
         | _ \<Rightarrow> None)
      else None)"

definition utf8_decode :: "bytes \<Rightarrow> pystr option" where
  "utf8_decode bs = utf8_decode_values (map unat bs)"

section \<open>fs/api.py: the XOR cipher\<close>

subsection \<open>Base64 of the standard library\<close>

text \<open>
  \<^verbatim>\<open>base64.b64encode\<close> and \<^verbatim>\<open>base64.b64decode\<close> belong to the Python standard library, not to
  the repository. They are written here after RFC 4648 and after the non-strict loop of
  \<^verbatim>\<open>binascii.a2b_base64\<close>, which skips every byte outside the alphabet, stops at a complete pad
  sequence and raises \<^verbatim>\<open>binascii.Error\<close> when the data characters do not fill a quad.
\<close>

definition b64_char :: "nat \<Rightarrow> nat" where
  "b64_char n = (if n < 26 then 65 + n else if n < 52 then 71 + n else if n < 62 then n - 4
                 else if n = 62 then 43 else 47)"

definition b64_value :: "nat \<Rightarrow> nat option" where
  "b64_value c = (if 65 \<le> c \<and> c \<le> 90 then Some (c - 65)
                  else if 97 \<le> c \<and> c \<le> 122 then Some (c - 71)
                  else if 48 \<le> c \<and> c \<le> 57 then Some (c + 4)
                  else if c = 43 then Some 62
                  else if c = 47 then Some 63
                  else None)"

fun b64encode_values :: "nat list \<Rightarrow> nat list" where
  "b64encode_values [] = []"
| "b64encode_values [x] = [b64_char (x div 4), b64_char (x mod 4 * 16), 61, 61]"
| "b64encode_values [x, y] =
     [b64_char (x div 4), b64_char (x mod 4 * 16 + y div 16), b64_char (y mod 16 * 4), 61]"
| "b64encode_values (x # y # z # r) =
     [b64_char (x div 4), b64_char (x mod 4 * 16 + y div 16), b64_char (y mod 16 * 4 + z div 64),
      b64_char (z mod 64)] @ b64encode_values r"

definition b64encode :: "bytes \<Rightarrow> bytes" where
  "b64encode bs = map of_nat (b64encode_values (map unat bs))"

datatype cipher_error = UnicodeEncodeError | UnicodeDecodeError | BinasciiError

text \<open>The loop of the decoder: the position in the quad, the bits left over, the pad count and
  the output so far.\<close>

fun a2b_base64 :: "nat list \<Rightarrow> nat \<Rightarrow> nat \<Rightarrow> nat \<Rightarrow> bytes \<Rightarrow> cipher_error + bytes" where
  "a2b_base64 [] quad_pos leftchar pads out =
     (if quad_pos \<noteq> 0 then Inl BinasciiError else Inr out)"
| "a2b_base64 (c # cs) quad_pos leftchar pads out =
     (if c = 61 then
        (if quad_pos \<ge> 2 \<and> quad_pos + (pads + 1) \<ge> 4 then Inr out
         else a2b_base64 cs quad_pos leftchar (if quad_pos \<ge> 2 then pads + 1 else pads) out)
      else case b64_value c of
        None \<Rightarrow> a2b_base64 cs quad_pos leftchar pads out
      | Some v \<Rightarrow>
          (if quad_pos = 0 then a2b_base64 cs 1 v 0 out
           else if quad_pos = 1 then
             a2b_base64 cs 2 (v mod 16) 0 (out @ [of_nat (leftchar * 4 + v div 16)])
           else if quad_pos = 2 then
             a2b_base64 cs 3 (v mod 4) 0 (out @ [of_nat (leftchar * 16 + v div 4)])
           else a2b_base64 cs 0 0 0 (out @ [of_nat (leftchar * 64 + v)])))"

definition b64decode :: "bytes \<Rightarrow> cipher_error + bytes" where
  "b64decode s = a2b_base64 (map unat s) 0 0 0 []"

subsection \<open>The key and the two transforms\<close>

text \<open>
  \<^verbatim>\<open>get_encryption_key\<close>: the secret is encoded and doubled until it has 32 bytes, then cut to
  32. The doubling loop does not end on an empty key, so its result is optional: \<open>None\<close> means
  that the loop never returns.
\<close>

partial_function (option) stretch_key :: "bytes \<Rightarrow> bytes option" where
  "stretch_key key = (if length key < 32 then stretch_key (key @ key) else Some key)"

declare stretch_key.simps [code]

definition get_encryption_key :: "pystr \<Rightarrow> (cipher_error + bytes) option" where
  "get_encryption_key SECRET_KEY =
     (case utf8_encode SECRET_KEY of
        None \<Rightarrow> Some (Inl UnicodeEncodeError)
      | Some key \<Rightarrow> map_option (\<lambda>k. Inr (take 32 k)) (stretch_key key))"

text \<open>The loop \<^verbatim>\<open>for i, byte in enumerate(data): out.append(byte ^ key[i % len(key)])\<close>.\<close>

definition xor_with_key :: "bytes \<Rightarrow> bytes \<Rightarrow> bytes" where
  "xor_with_key key data = map (\<lambda>(i, b). b XOR key ! (i mod length key)) (enumerate 0 data)"

text \<open>
  \<^verbatim>\<open>encrypt_data\<close> on a \<^verbatim>\<open>bytes\<close> argument (a \<^verbatim>\<open>str\<close> argument is encoded first and then
  treated the same way) and \<^verbatim>\<open>decrypt_data\<close>.
\<close>

definition encrypt_data :: "pystr \<Rightarrow> bytes \<Rightarrow> (cipher_error + pystr) option" where
  "encrypt_data SECRET_KEY data =
     (case get_encryption_key SECRET_KEY of
        None \<Rightarrow> None
      | Some (Inl e) \<Rightarrow> Some (Inl e)
      | Some (Inr key) \<Rightarrow>
          (case utf8_decode (b64encode (xor_with_key key data)) of
             None \<Rightarrow> Some (Inl UnicodeDecodeError)
           | Some s \<Rightarrow> Some (Inr s)))"

definition decrypt_data :: "pystr \<Rightarrow> pystr \<Rightarrow> (cipher_error + bytes) option" where
  "decrypt_data SECRET_KEY encrypted_data =
     (case get_encryption_key SECRET_KEY of
        None \<Rightarrow> None
      | Some (Inl e) \<Rightarrow> Some (Inl e)
      | Some (Inr key) \<Rightarrow>
          (case utf8_encode encrypted_data of
             None \<Rightarrow> Some (Inl UnicodeEncodeError)
           | Some s \<Rightarrow>
               (case b64decode s of
                  Inl e \<Rightarrow> Some (Inl e)
                | Inr encrypted_bytes \<Rightarrow> Some (Inr (xor_with_key key encrypted_bytes)))))"

section \<open>Python built-ins on text\<close>

text \<open>\<^verbatim>\<open>str.isspace\<close> of one code point, which \<^verbatim>\<open>str.strip()\<close> and \<^verbatim>\<open>int()\<close> use.\<close>

definition py_isspace :: "nat \<Rightarrow> bool" where
  "py_isspace c \<longleftrightarrow> (9 \<le> c \<and> c \<le> 13) \<or> (28 \<le> c \<and> c \<le> 32) \<or> c = 133 \<or> c = 160
     \<or> c = 5760 \<or> (8192 \<le> c \<and> c \<le> 8202) \<or> c = 8232 \<or> c = 8233 \<or> c = 8239 \<or> c = 8287
     \<or> c = 12288"

definition py_strip :: "pystr \<Rightarrow> pystr" where
  "py_strip s = rev (dropWhile py_isspace (rev (dropWhile py_isspace s)))"

text \<open>\<^verbatim>\<open>str(n)\<close> of a non-negative integer, as the f-strings format a chunk index.\<close>

function str_nat :: "nat \<Rightarrow> pystr" where
  "str_nat n = (if n < 10 then [48 + n] else str_nat (n div 10) @ [48 + n mod 10])"
  by pat_completeness auto
termination
  by (relation "measure id") auto

declare str_nat.simps [simp del]

text \<open>
  \<^verbatim>\<open>int(s)\<close> on a \<^verbatim>\<open>str\<close>, base 10: surrounding whitespace is dropped, one sign is allowed,
  and the digits may be separated by single underscores; \<open>None\<close> is ValueError. Decimal
  digits outside ASCII and the interpreter's limit on the number of digits are left
  out: the strings parsed here are HTTP header values and file names.
\<close>

definition is_digit :: "nat \<Rightarrow> bool" where
  "is_digit c \<longleftrightarrow> 48 \<le> c \<and> c \<le> 57"

fun digits_ok :: "pystr \<Rightarrow> bool" where
  "digits_ok [] = False"
| "digits_ok [c] = is_digit c"
| "digits_ok (c # d # r) =
     (is_digit c \<and> (if d = 95 then (case r of [] \<Rightarrow> False | e # _ \<Rightarrow> is_digit e \<and> digits_ok r)
                     else digits_ok (d # r)))"

definition digits_value :: "pystr \<Rightarrow> nat" where
  "digits_value s = foldl (\<lambda>acc c. 10 * acc + (c - 48)) 0 (filter is_digit s)"

definition py_int :: "pystr \<Rightarrow> int option" where
  "py_int s =
     (let t = py_strip s in
      case t of
        [] \<Rightarrow> None
      | c # r \<Rightarrow>
          if c = 45 then (if digits_ok r then Some (- int (digits_value r)) else None)
          else if c = 43 then (if digits_ok r then Some (int (digits_value r)) else None)
          else if digits_ok t then Some (int (digits_value t)) else None)"

text \<open>\<^verbatim>\<open>s.rfind(c)\<close> for one character: the last index, or \<open>-1\<close>.\<close>

definition py_rfind :: "nat \<Rightarrow> pystr \<Rightarrow> int" where
  "py_rfind c s = (if c \<in> set s then int (length s) - 1 - int (length (takeWhile (\<lambda>x. x \<noteq> c) (rev s)))
                   else - 1)"

text \<open>\<^verbatim>\<open>s.split(sep)\<close> for a non-empty separator: the pieces between the occurrences of \<open>sep\<close>,
  found from the left. \<open>cur\<close> holds the piece being read, reversed.\<close>

function py_split_from :: "pystr \<Rightarrow> pystr \<Rightarrow> pystr \<Rightarrow> pystr list" where
  "py_split_from sep cur [] = [rev cur]"
| "py_split_from sep cur (c # r) =
     (if sep \<noteq> [] \<and> prefix sep (c # r)
      then rev cur # py_split_from sep [] (drop (length sep - 1) r)
      else py_split_from sep (c # cur) r)"
  by pat_completeness auto
termination
  by (relation "measure (\<lambda>(sep, cur, s). length s)") auto

definition py_split :: "pystr \<Rightarrow> pystr \<Rightarrow> pystr list" where
  "py_split s sep = py_split_from sep [] s"

text \<open>Slices \<^verbatim>\<open>xs[:k]\<close> and \<^verbatim>\<open>xs[k:]\<close> for an integer \<open>k\<close>: a negative \<open>k\<close> counts from the
  end.\<close>

definition py_take :: "int \<Rightarrow> 'a list \<Rightarrow> 'a list" where
  "py_take k xs = take (nat (if k < 0 then int (length xs) + k else k)) xs"

definition py_drop :: "int \<Rightarrow> 'a list \<Rightarrow> 'a list" where
  "py_drop k xs = drop (nat (if k < 0 then int (length xs) + k else k)) xs"

text \<open>Reading in text mode translates \<^verbatim>\<open>\r\n\<close> and a lone \<^verbatim>\<open>\r\<close> to \<^verbatim>\<open>\n\<close>.\<close>

fun universal_newlines :: "pystr \<Rightarrow> pystr" where
  "universal_newlines [] = []"
| "universal_newlines [c] = [if c = 13 then 10 else c]"
| "universal_newlines (c # d # r) =
     (if c = 13 \<and> d = 10 then 10 # universal_newlines r
      else (if c = 13 then 10 else c) # universal_newlines (d # r))"

text \<open>The extension part of \<^verbatim>\<open>os.path.splitext\<close> (the POSIX one): from the last dot of the
  last component, unless that component has only leading dots before it.\<close>

definition splitext_ext :: "pystr \<Rightarrow> pystr" where
  "splitext_ext p =
     (let sepIndex = py_rfind 47 p; dotIndex = py_rfind 46 p in
      if dotIndex > sepIndex \<and> (\<exists>k \<in> {nat (sepIndex + 1) ..< nat dotIndex}. p ! k \<noteq> 46)
      then drop (nat dotIndex) p else [])"

section \<open>The file system\<close>

text \<open>
  A path is the list of its components, so \<^verbatim>\<open>base_dir / name\<close> and
  \<^verbatim>\<open>os.path.join(storage_dir, name)\<close> append one component: the names joined to a directory
  (file ids, chunk ids, file names) are taken to hold no separator. The file system is the
  content of every regular file and the set of directories.
\<close>

type_synonym path = "pystr list"

record fs =
  files :: "path \<rightharpoonup> bytes"
  dirs :: "path set"

datatype os_error = FileNotFoundError | FileExistsError | IsADirectoryError

definition path_exists :: "fs \<Rightarrow> path \<Rightarrow> bool" where
  "path_exists s p \<longleftrightarrow> files s p \<noteq> None \<or> p \<in> dirs s"

text \<open>\<^verbatim>\<open>mkdir(parents=True, exist_ok=True)\<close> and \<^verbatim>\<open>os.makedirs(d, exist_ok=True)\<close>.\<close>

definition mkdir_p :: "fs \<Rightarrow> path \<Rightarrow> os_error + fs" where
  "mkdir_p s d =
     (if d \<in> dirs s then Inr s
      else if \<exists>q \<in> set (prefixes d). files s q \<noteq> None then Inl FileExistsError
      else Inr (s\<lparr>dirs := dirs s \<union> set (prefixes d)\<rparr>))"

text \<open>\<^verbatim>\<open>open(p, 'wb')\<close> creates the file or empties it; its directory must exist.\<close>

definition open_wb :: "fs \<Rightarrow> path \<Rightarrow> os_error + fs" where
  "open_wb s p =
     (if p \<in> dirs s then Inl IsADirectoryError
      else if p = [] \<or> butlast p \<notin> dirs s then Inl FileNotFoundError
      else Inr (s\<lparr>files := (files s)(p \<mapsto> [])\<rparr>))"

text \<open>\<^verbatim>\<open>f.write(data)\<close> on a file opened for writing appends to what was written so far.\<close>

definition append_file :: "fs \<Rightarrow> path \<Rightarrow> bytes \<Rightarrow> fs" where
  "append_file s p data = s\<lparr>files := (files s)(p \<mapsto> (case files s p of None \<Rightarrow> [] | Some old \<Rightarrow> old) @ data)\<rparr>"

text \<open>\<^verbatim>\<open>with open(p, 'wb') as f: f.write(data)\<close>.\<close>

definition write_file :: "fs \<Rightarrow> path \<Rightarrow> bytes \<Rightarrow> os_error + fs" where
  "write_file s p data = (case open_wb s p of Inl e \<Rightarrow> Inl e | Inr s1 \<Rightarrow> Inr (append_file s1 p data))"

text \<open>\<^verbatim>\<open>with open(p, 'rb') as f: f.read()\<close>.\<close>

definition read_file :: "fs \<Rightarrow> path \<Rightarrow> os_error + bytes" where
  "read_file s p =
     (if p \<in> dirs s then Inl IsADirectoryError
      else case files s p of None \<Rightarrow> Inl FileNotFoundError | Some data \<Rightarrow> Inr data)"


section \<open>ALL/utils.py: chunked download and assembly\<close>

subsection \<open>The names of the files of a chunk set\<close>

definition chunk_path :: "path \<Rightarrow> pystr \<Rightarrow> nat \<Rightarrow> path" where
  "chunk_path base_dir file_id i = base_dir @ [file_id @ ascii ''.part'' @ str_nat i]"

definition ext_path :: "path \<Rightarrow> pystr \<Rightarrow> path" where
  "ext_path base_dir file_id = base_dir @ [file_id @ ascii ''.ext'']"

definition name_path :: "path \<Rightarrow> pystr \<Rightarrow> path" where
  "name_path base_dir file_id = base_dir @ [file_id]"

subsection \<open>count\_existing\_chunks\<close>

text \<open>The probing loop \<^verbatim>\<open>while True\<close> ends at the first index whose chunk path does not
  exist; \<open>None\<close> means that it never ends.\<close>

partial_function (option) count_from :: "fs \<Rightarrow> path \<Rightarrow> pystr \<Rightarrow> nat \<Rightarrow> nat option" where
  "count_from s base_dir file_id chunk_count =
     (if path_exists s (chunk_path base_dir file_id chunk_count)
      then count_from s base_dir file_id (chunk_count + 1)
      else Some chunk_count)"

declare count_from.simps [code]

definition count_existing_chunks :: "fs \<Rightarrow> path \<Rightarrow> pystr \<Rightarrow> nat option" where
  "count_existing_chunks s base_dir file_id = count_from s base_dir file_id 0"

subsection \<open>download\_file\_in\_chunks\<close>

text \<open>
  What \<^verbatim>\<open>requests.get(url, ..., stream=True)\<close> does: it raises a
  \<^verbatim>\<open>requests.RequestException\<close>, it raises something else, or it returns a response with a
  status, the \<^verbatim>\<open>Content-Length\<close> header if there is one, and the blocks that
  \<^verbatim>\<open>iter_content\<close> yields, after which the stream may raise.
\<close>

record http_response =
  http_status :: int
  content_length :: "pystr option"
  blocks :: "bytes list"
  stream_fails :: bool

datatype http_result = RaisesRequestException | RaisesOther | Returns http_response

text \<open>The three error messages of the function, without the text of the exception.\<close>

datatype dl_message = DownloadFailed | ProcessingFailed | SaveChunkFailed

type_synonym dl_result = "bool \<times> nat \<times> dl_message list"

record dworld =
  fsys :: fs
  net_requests :: "pystr list"

text \<open>\<^verbatim>\<open>file_size = int(content_length) if content_length else None\<close>; the outer \<open>None\<close> is the
  ValueError of \<^verbatim>\<open>int\<close>.\<close>

definition file_size_of :: "pystr option \<Rightarrow> int option option" where
  "file_size_of cl =
     (case cl of
        None \<Rightarrow> Some None
      | Some s \<Rightarrow> if s = [] then Some None else map_option Some (py_int s))"

text \<open>
  Lines 150-161. \<^verbatim>\<open>math.ceil(file_size / CHUNK_COUNT_SMALL)\<close> is the ceiling of a float
  quotient; it is written here as the ceiling of the exact quotient, which it equals as
  long as the size is below \<open>2^53\<close>. A zero count raises ZeroDivisionError.
\<close>

datatype arith_error = ZeroDivisionError

definition choose_chunk_size :: "config \<Rightarrow> int option \<Rightarrow> arith_error + int" where
  "choose_chunk_size cfg file_size =
     (case file_size of
        None \<Rightarrow> Inr (CHUNK_SIZE_SMALL cfg)
      | Some n \<Rightarrow>
          if n \<noteq> 0 \<and> n < CHUNK_SIZE_THRESHOLD cfg then
            (if CHUNK_COUNT_SMALL cfg = 0 then Inl ZeroDivisionError
             else Inr (- ((- n) div CHUNK_COUNT_SMALL cfg)))
          else Inr (CHUNK_SIZE_SMALL cfg))"

text \<open>
  The inner loop \<^verbatim>\<open>while len(current_chunk_data) >= chunk_size\<close>: it writes one chunk file per
  round. The result is \<open>Inl\<close> with the state and the index reached when a write raises, and
  \<open>Inr\<close> with the rest of the buffer otherwise; \<open>None\<close> means that the loop never ends, which
  is what happens for a chunk size that is not positive.
\<close>

partial_function (option) flush_chunks ::
  "fs \<Rightarrow> path \<Rightarrow> pystr \<Rightarrow> int \<Rightarrow> nat \<Rightarrow> bytes \<Rightarrow> (fs \<times> nat + fs \<times> nat \<times> bytes) option" where
  "flush_chunks s base_dir file_id chunk_size chunk_index current_chunk_data =
     (if int (length current_chunk_data) \<ge> chunk_size then
        (case write_file s (chunk_path base_dir file_id chunk_index)
                (py_take chunk_size current_chunk_data) of
           Inl e \<Rightarrow> Some (Inl (s, chunk_index))
         | Inr s1 \<Rightarrow>
             flush_chunks s1 base_dir file_id chunk_size (chunk_index + 1)
               (py_drop chunk_size current_chunk_data))
      else Some (Inr (s, chunk_index, current_chunk_data)))"

declare flush_chunks.simps [code]

text \<open>The loop over the blocks of the stream; an empty block is skipped.\<close>

fun write_blocks ::
  "fs \<Rightarrow> path \<Rightarrow> pystr \<Rightarrow> int \<Rightarrow> bytes list \<Rightarrow> nat \<Rightarrow> bytes \<Rightarrow> (fs \<times> nat + fs \<times> nat \<times> bytes) option" where
  "write_blocks s base_dir file_id chunk_size [] chunk_index current_chunk_data =
     Some (Inr (s, chunk_index, current_chunk_data))"
| "write_blocks s base_dir file_id chunk_size (chunk # rest) chunk_index current_chunk_data =
     (if chunk \<noteq> [] then
        (case flush_chunks s base_dir file_id chunk_size chunk_index (current_chunk_data @ chunk) of
           None \<Rightarrow> None
         | Some (Inl raised) \<Rightarrow> Some (Inl raised)
         | Some (Inr (s1, chunk_index1, rest_data)) \<Rightarrow>
             write_blocks s1 base_dir file_id chunk_size rest chunk_index1 rest_data)
      else write_blocks s base_dir file_id chunk_size rest chunk_index current_chunk_data)"

text \<open>
  Lines 163-209, the sequential chunk writer: the loop, the last partial chunk, and the
  sidecar with the extension, which is opened in text mode and written as UTF-8 (with the
  line endings of POSIX, where text mode writes \<^verbatim>\<open>\n\<close> as it is). Whatever is raised
  inside is caught there, and the answer is then \<^verbatim>\<open>(False, chunk_index, [message])\<close>.
\<close>

definition save_chunks ::
  "fs \<Rightarrow> path \<Rightarrow> pystr \<Rightarrow> int \<Rightarrow> pystr \<Rightarrow> bytes list \<Rightarrow> bool \<Rightarrow> (fs \<times> dl_result) option" where
  "save_chunks s base_dir file_id chunk_size file_ext stream stream_raises =
     (case write_blocks s base_dir file_id chunk_size stream 0 [] of
        None \<Rightarrow> None
      | Some (Inl (s1, chunk_index)) \<Rightarrow> Some (s1, (False, chunk_index, [SaveChunkFailed]))
      | Some (Inr (s1, chunk_index, current_chunk_data)) \<Rightarrow>
          if stream_raises then Some (s1, (False, chunk_index, [SaveChunkFailed]))
          else
            (case (if current_chunk_data \<noteq> []
                   then (case write_file s1 (chunk_path base_dir file_id chunk_index)
                                 current_chunk_data of
                           Inl e \<Rightarrow> Inl chunk_index
                         | Inr s2 \<Rightarrow> Inr (s2, chunk_index + 1))
                   else Inr (s1, chunk_index)) of
               Inl i \<Rightarrow> Some (s1, (False, i, [SaveChunkFailed]))
             | Inr (s2, chunk_index2) \<Rightarrow>
                 if file_ext \<noteq> [] then
                   (case open_wb s2 (ext_path base_dir file_id) of
                      Inl e \<Rightarrow> Some (s2, (False, chunk_index2, [SaveChunkFailed]))
                    | Inr s3 \<Rightarrow>
                        (case utf8_encode file_ext of
                           None \<Rightarrow> Some (s3, (False, chunk_index2, [SaveChunkFailed]))
                         | Some encoded \<Rightarrow>
                             Some (append_file s3 (ext_path base_dir file_id) encoded,
                                   (True, chunk_index2, []))))
                 else Some (s2, (True, chunk_index2, []))))"

text \<open>\<^verbatim>\<open>os.path.splitext(url)[1] or '.jpg'\<close>.\<close>

definition default_ext :: "pystr \<Rightarrow> pystr" where
  "default_ext url = (let e = splitext_ext url in if e \<noteq> [] then e else ascii ''.jpg'')"

definition download_file_in_chunks ::
  "config \<Rightarrow> (pystr \<Rightarrow> http_result) \<Rightarrow> dworld \<Rightarrow> pystr \<Rightarrow> path \<Rightarrow> pystr \<Rightarrow> pystr option
     \<Rightarrow> (dworld \<times> dl_result) option" where
  "download_file_in_chunks cfg http_get w url base_dir file_id file_ext0 =
     (case mkdir_p (fsys w) base_dir of
        Inl e \<Rightarrow> Some (w, (False, 0, [ProcessingFailed]))
      | Inr s1 \<Rightarrow>
          let w1 = w\<lparr>fsys := s1\<rparr>;
              file_ext = (case file_ext0 of
                            None \<Rightarrow> default_ext url
                          | Some e \<Rightarrow> if e \<noteq> [] then e else default_ext url)
          in
          if path_exists s1 (chunk_path base_dir file_id 0) then
            map_option (\<lambda>chunk_count. (w1, (True, chunk_count, [])))
              (count_existing_chunks s1 base_dir file_id)
          else
            let w2 = w1\<lparr>net_requests := net_requests w1 @ [url]\<rparr> in
            (case http_get url of
               RaisesRequestException \<Rightarrow> Some (w2, (False, 0, [DownloadFailed]))
             | RaisesOther \<Rightarrow> Some (w2, (False, 0, [ProcessingFailed]))
             | Returns response \<Rightarrow>
                 if 400 \<le> http_status response \<and> http_status response < 600
                 then Some (w2, (False, 0, [DownloadFailed]))
                 else
                   (case file_size_of (content_length response) of
                      None \<Rightarrow> Some (w2, (False, 0, [ProcessingFailed]))
                    | Some file_size \<Rightarrow>
                        (case choose_chunk_size cfg file_size of
                           Inl e \<Rightarrow> Some (w2, (False, 0, [ProcessingFailed]))
                         | Inr chunk_size \<Rightarrow>
                             map_option (\<lambda>(s2, result). (w2\<lparr>fsys := s2\<rparr>, result))
                               (save_chunks s1 base_dir file_id chunk_size file_ext
                                  (blocks response) (stream_fails response))))))"

subsection \<open>assemble\_chunks\<close>

datatype asm_error = ChunkError | OSError os_error

text \<open>The \<^verbatim>\<open>for ... else\<close> over \<^verbatim>\<open>date_dirs\<close>: the first directory that holds an entry named
  after the file id.\<close>

fun locate_dir :: "fs \<Rightarrow> pystr \<Rightarrow> path list \<Rightarrow> path option" where
  "locate_dir s file_id [] = None"
| "locate_dir s file_id (date_dir # rest) =
     (if path_exists s (date_dir @ [file_id]) then Some (date_dir @ [file_id])
      else locate_dir s file_id rest)"

text \<open>The loop that collects the chunk paths; it ends at the first missing index.\<close>

partial_function (option) find_chunks ::
  "fs \<Rightarrow> path \<Rightarrow> pystr \<Rightarrow> nat \<Rightarrow> path list \<Rightarrow> path list option" where
  "find_chunks s base_dir file_id chunk_index chunk_files =
     (if path_exists s (chunk_path base_dir file_id chunk_index)
      then find_chunks s base_dir file_id (chunk_index + 1)
             (chunk_files @ [chunk_path base_dir file_id chunk_index])
      else Some chunk_files)"

declare find_chunks.simps [code]

text \<open>
  One attempt at a sidecar, the body of each \<^verbatim>\<open>try\<close>: the file is read in text mode as
  UTF-8 and stripped; the content counts if it starts with a dot and has fewer than 10
  characters. \<open>None\<close> stands for a content that does not count and for the exceptions that
  the \<^verbatim>\<open>except\<close> clause swallows (the file cannot be opened, or is not UTF-8).
\<close>

definition read_ext :: "fs \<Rightarrow> path \<Rightarrow> pystr option" where
  "read_ext s p =
     (case read_file s p of
        Inl e \<Rightarrow> None
      | Inr data \<Rightarrow>
          (case utf8_decode data of
             None \<Rightarrow> None
           | Some decoded \<Rightarrow>
               let content = py_strip (universal_newlines decoded) in
               if content \<noteq> [] \<and> hd content = 46 \<and> length content < 10 then Some content
               else None))"

text \<open>Lines 285-309: the sidecar \<^verbatim>\<open>{file_id}.ext\<close>, then, if the extension is still
  \<^verbatim>\<open>'.jpg'\<close>, the file named \<^verbatim>\<open>{file_id}\<close>.\<close>

definition resolve_ext :: "fs \<Rightarrow> path \<Rightarrow> pystr \<Rightarrow> pystr" where
  "resolve_ext s base_dir file_id =
     (let file_ext =
            (if path_exists s (ext_path base_dir file_id)
             then (case read_ext s (ext_path base_dir file_id) of
                     Some content \<Rightarrow> content
                   | None \<Rightarrow> ascii ''.jpg'')
             else ascii ''.jpg'')
      in
      if file_ext = ascii ''.jpg'' then
        (if path_exists s (name_path base_dir file_id)
         then (case read_ext s (name_path base_dir file_id) of
                 Some content \<Rightarrow> content
               | None \<Rightarrow> file_ext)
         else file_ext)
      else file_ext)"

text \<open>\<^verbatim>\<open>PurePath.stem\<close>: the last component without its last suffix.\<close>

definition path_stem :: "path \<Rightarrow> pystr" where
  "path_stem p =
     (let name = (if p = [] then [] else last p); i = py_rfind 46 name in
      if 0 < i \<and> i < int (length name) - 1 then take (nat i) name else name)"

text \<open>The sort key \<^verbatim>\<open>int(chunk_path.stem.split('.part')[1])\<close>, and 0 on ValueError or
  IndexError.\<close>

definition get_chunk_index :: "path \<Rightarrow> int" where
  "get_chunk_index p =
     (case py_split (path_stem p) (ascii ''.part'') of
        a # b # r \<Rightarrow> (case py_int b of Some n \<Rightarrow> n | None \<Rightarrow> 0)
      | _ \<Rightarrow> 0)"

fun read_all :: "fs \<Rightarrow> path list \<Rightarrow> os_error + bytes" where
  "read_all s [] = Inr []"
| "read_all s (p # ps) =
     (case read_file s p of
        Inl e \<Rightarrow> Inl e
      | Inr data \<Rightarrow> (case read_all s ps of Inl e \<Rightarrow> Inl e | Inr others \<Rightarrow> Inr (data @ others)))"

text \<open>
  \<^verbatim>\<open>sorted(chunk_files, key=get_chunk_index)\<close> is a stable sort, as \<open>sort_key\<close> is. An error of
  the operating system while a chunk is read is not caught by the function.
\<close>

definition assemble_chunks ::
  "fs \<Rightarrow> path \<Rightarrow> pystr \<Rightarrow> path list option \<Rightarrow> (asm_error + bytes \<times> pystr) option" where
  "assemble_chunks s base_dir0 file_id date_dirs =
     (case (case date_dirs of
              None \<Rightarrow> Some base_dir0
            | Some ds \<Rightarrow> if ds = [] then Some base_dir0 else locate_dir s file_id ds) of
        None \<Rightarrow> Some (Inl ChunkError)
      | Some base_dir \<Rightarrow>
          (case find_chunks s base_dir file_id 0 [] of
             None \<Rightarrow> None
           | Some chunk_files \<Rightarrow>
               if chunk_files = [] then Some (Inl ChunkError)
               else
                 let file_ext = resolve_ext s base_dir file_id in
                 (case read_all s (sort_key get_chunk_index chunk_files) of
                    Inl e \<Rightarrow> Some (Inl (OSError e))
                  | Inr assembled_data \<Rightarrow> Some (Inr (assembled_data, file_ext)))))"

subsection \<open>The state of a chunk set while it is written\<close>



section \<open>fs/api.py: merge\_chunks\<close>

text \<open>
  The body of the request after \<^verbatim>\<open>json.loads\<close>: the declared hash, the file name and size (\<^verbatim>\<open>file_size\<close>, here \<open>declared_size\<close>), the
  list \<^verbatim>\<open>chunks\<close> of \<^verbatim>\<open>{chunk_index, chunk_uuid}\<close>, the flag \<^verbatim>\<open>generate_thumbnail\<close> once it is
  converted to a boolean, and the thumbnail sent by the client. An absent or empty
  \<^verbatim>\<open>file_md5\<close> or \<^verbatim>\<open>file_name\<close> is the empty string. The descriptive fields (album, subject,
  author, level, remark, categories, tags) are copied into the database and play no part
  in what is modelled here.
\<close>

record chunk_info =
  chunk_index :: int
  chunk_uuid :: pystr



















section \<open>Properties of get\_data\<close>

text \<open>
  Claim C5 (retry classification), evaluated at a page whose first attempt is answered with
  status 403, under the default configuration (\<open>MAX_RETRIES = 5\<close>). The claim says that the
  session is invalidated and recreated and the request retried. The code raises
  \<^verbatim>\<open>requests.HTTPError\<close> without a response for every status other than 200, so the handler
  reads the status \<^verbatim>\<open>None\<close> and takes its last branch: the page fails after this one
  request, the session in use stays cached, and nothing is slept.
\<close>

theorem get_data_403_response_not_retried:
  "get_data default_config
     (\<lambda>p k. Responds \<lparr>status_code = 403, content_empty = False, json = JsonValue ()\<rparr>)
     world0 1 1 10
   = Inr (\<lparr>success = 0, failed = 1, total = 1\<rparr>,
          \<lparr>http_client = Some 0, sessions_created = 1, requests = [(1, 0)], slept = [],
           saved = []\<rparr>)"
  by code_simp














text \<open>
  The run of the example: page 1 succeeds at its fourth attempt after sleeping 5, 10 and 20
  seconds, pages 2 and 3 fail at their first attempt, and one second is slept between the
  pages.
\<close>

lemma get_data_example_run:
  "get_data default_config example_fetch world0 1 3 10
   = Inr (\<lparr>success = 1, failed = 2, total = 3\<rparr>,
          \<lparr>http_client = Some 0, sessions_created = 1,
           requests = [(1, 0), (1, 0), (1, 0), (1, 0), (2, 0), (3, 0)],
           slept = [5, 10, 20, 1, 1], saved = [()]\<rparr>)"
  by code_simp

text \<open>
  The hypothesis on the exceptions is needed. If every call of \<^verbatim>\<open>client.get\<close> raised an
  HTTPError that carried a 403 response, the fifth attempt would exhaust the retries in the
  403 branch, which counts the page as failed and breaks, and the check after the loop would
  count it again.
\<close>

lemma get_data_exhausted_403_counted_twice:
  "get_data default_config (\<lambda>p k. Raises (HTTPError (Some 403)) :: unit attempt) world0 1 1 10
   = Inr (\<lparr>success = 0, failed = 2, total = 1\<rparr>,
          \<lparr>http_client = None, sessions_created = 5,
           requests = [(1, 0), (1, 1), (1, 2), (1, 3), (1, 4)],
           slept = [5, 10, 20, 40], saved = []\<rparr>)"
  by code_simp

section \<open>Properties of the XOR cipher\<close>

lemma b64_value_char: "n < 64 \<Longrightarrow> b64_value (b64_char n) = Some n"
  by (auto simp: b64_value_def b64_char_def)

lemma b64_char_not_pad: "b64_char n \<noteq> 61"
  by (auto simp: b64_char_def)

lemma b64_char_ascii: "b64_char n < 128"
  by (auto simp: b64_char_def)

lemma a2b_step: "n < 64 \<Longrightarrow> a2b_base64 (b64_char n # cs) q lc pads out =
   (if q = 0 then a2b_base64 cs 1 n 0 out
           else if q = 1 then
             a2b_base64 cs 2 (n mod 16) 0 (out @ [of_nat (lc * 4 + n div 16)])
           else if q = 2 then
             a2b_base64 cs 3 (n mod 4) 0 (out @ [of_nat (lc * 16 + n div 4)])
           else a2b_base64 cs 0 0 0 (out @ [of_nat (lc * 64 + n)]))"
  by (simp add: b64_value_char b64_char_not_pad)

lemma hi_lo:
  fixes y :: nat
  assumes "y < 256"
  shows "y div 16 < 16" "y div 64 < 4" "y div 16 * 16 + y mod 16 = y" "y div 64 * 64 + y mod 64 = y"
    "y div 4 * 4 + y mod 4 = y"
  using assms by (simp_all add: less_mult_imp_div_less)

lemma regroup:
  fixes x y z :: nat
  assumes "x < 256" "y < 256" "z < 256"
  shows "x div 4 * 4 + (x mod 4 * 16 + y div 16) div 16 = x"
    "(x mod 4 * 16 + y div 16) mod 16 * 16 + (y mod 16 * 4 + z div 64) div 4 = y"
    "(y mod 16 * 4 + z div 64) mod 4 * 64 + z mod 64 = z" 
    "x div 4 * 4 + x mod 4 * 16 div 16 = x"
    "(x mod 4 * 16 + y div 16) mod 16 * 16 + y mod 16 * 4 div 4 = y"
proof -
  note h = hi_lo(1,2)[OF assms(2)] hi_lo(1,2)[OF assms(3)]
  have a: "(x mod 4 * 16 + y div 16) div 16 = x mod 4" using h by simp
  have b: "(x mod 4 * 16 + y div 16) mod 16 = y div 16" using h by simp
  have c: "(y mod 16 * 4 + z div 64) div 4 = y mod 16" using h by simp
  have d: "(y mod 16 * 4 + z div 64) mod 4 = z div 64" using h by simp
  show "x div 4 * 4 + (x mod 4 * 16 + y div 16) div 16 = x" unfolding a by simp
  show "(x mod 4 * 16 + y div 16) mod 16 * 16 + (y mod 16 * 4 + z div 64) div 4 = y"
    unfolding b c by simp
  show "(y mod 16 * 4 + z div 64) mod 4 * 64 + z mod 64 = z" unfolding d by simp
  show "x div 4 * 4 + x mod 4 * 16 div 16 = x" by simp
  show "(x mod 4 * 16 + y div 16) mod 16 * 16 + y mod 16 * 4 div 4 = y" unfolding b by simp
qed

lemma sextets:
  fixes x y z :: nat
  assumes "x < 256" "y < 256" "z < 256"
  shows "x div 4 < 64" "x mod 4 * 16 < 64" "x mod 4 * 16 + y div 16 < 64"
    "y mod 16 * 4 < 64" "y mod 16 * 4 + z div 64 < 64" "z mod 64 < 64"
proof -
  note h = hi_lo(1,2)[OF assms(2)] hi_lo(1,2)[OF assms(3)]
  have m: "x mod 4 < 4" "y mod 16 < 16" by simp_all
  show "x div 4 < 64" using assms(1) by (simp add: less_mult_imp_div_less)
  show "x mod 4 * 16 < 64" using m by linarith
  show "x mod 4 * 16 + y div 16 < 64" using m h by linarith
  show "y mod 16 * 4 < 64" using m by linarith
  show "y mod 16 * 4 + z div 64 < 64" using m h by linarith
  show "z mod 64 < 64" by simp
qed

lemma a2b_two:
  assumes "s0 < 64" "s1 < 64"
  shows "a2b_base64 (b64_char s0 # b64_char s1 # cs) 0 lc pads out
         = a2b_base64 cs 2 (s1 mod 16) 0 (out @ [of_nat (s0 * 4 + s1 div 16)])"
  using assms by (simp add: a2b_step del: a2b_base64.simps)

lemma a2b_three:
  assumes "s0 < 64" "s1 < 64" "s2 < 64"
  shows "a2b_base64 (b64_char s0 # b64_char s1 # b64_char s2 # cs) 0 lc pads out
         = a2b_base64 cs 3 (s2 mod 4) 0
             (out @ [of_nat (s0 * 4 + s1 div 16), of_nat (s1 mod 16 * 16 + s2 div 4)])"
  using assms by (simp add: a2b_step del: a2b_base64.simps)

lemma a2b_four:
  assumes "s0 < 64" "s1 < 64" "s2 < 64" "s3 < 64"
  shows "a2b_base64 (b64_char s0 # b64_char s1 # b64_char s2 # b64_char s3 # cs) 0 lc pads out
         = a2b_base64 cs 0 0 0
             (out @ [of_nat (s0 * 4 + s1 div 16), of_nat (s1 mod 16 * 16 + s2 div 4),
                     of_nat (s2 mod 4 * 64 + s3)])"
  using assms by (simp add: a2b_step del: a2b_base64.simps)

lemma a2b_pad2: "a2b_base64 [61, 61] 2 lc 0 out = Inr out"
  by simp

lemma a2b_pad1: "a2b_base64 [61] 3 lc 0 out = Inr out"
  by simp

lemma a2b_encode:
  "\<forall>x\<in>set xs. x < 256 \<Longrightarrow>
   a2b_base64 (b64encode_values xs) 0 lc pads out = Inr (out @ map of_nat xs)"
proof (induction xs arbitrary: lc pads out rule: b64encode_values.induct)
  case 1
  then show ?case by simp
next
  case (2 x)
  then have x: "x < 256" by simp
  note s = sextets(1,2)[OF x x x]
  show ?case
    unfolding b64encode_values.simps a2b_two[OF s] a2b_pad2 regroup(4)[OF x x x] by simp
next
  case (3 x y)
  then have xy: "x < 256" "y < 256" by simp_all
  note s = sextets(1,3,4)[OF xy xy(2)]
  show ?case
    unfolding b64encode_values.simps a2b_three[OF s] a2b_pad1 regroup(1,5)[OF xy xy(2)] by simp
next
  case (4 x y z r)
  then have xyz: "x < 256" "y < 256" "z < 256" by simp_all
  note s = sextets(1,3,5,6)[OF xyz]
  from 4 have "\<forall>x\<in>set r. x < 256" by simp
  note IH = "4.IH"[OF this]
  show ?case
    unfolding b64encode_values.simps append.simps a2b_four[OF s] regroup(1,2,3)[OF xyz] IH by simp
qed

lemma b64encode_values_ascii: "v \<in> set (b64encode_values xs) \<Longrightarrow> v < 128"
  by (induction xs rule: b64encode_values.induct) (auto simp: b64_char_ascii)

lemma unat_of_nat_byte: "v < 256 \<Longrightarrow> unat (of_nat v :: byte) = v"
  by (simp add: unat_of_nat)

lemma unat_byte_less: "unat (b :: byte) < 256"
  using unsigned_less[of b] by simp

lemma b64_roundtrip: "b64decode (b64encode bs) = Inr bs"
proof -
  have lt: "\<forall>x\<in>set (map unat bs). x < 256"
    by (simp add: unat_byte_less)
  have "unat (of_nat v :: byte) = v" if "v \<in> set (b64encode_values (map unat bs))" for v
  proof -
    from that have "v < 128" by (rule b64encode_values_ascii)
    then show ?thesis by (simp add: unat_of_nat_byte)
  qed
  then have "map unat (map of_nat (b64encode_values (map unat bs)) :: bytes) = b64encode_values (map unat bs)"
    by (simp add: map_idI)
  then show ?thesis
    by (simp add: b64decode_def b64encode_def a2b_encode[OF lt] comp_def)
qed


lemma utf8_decode_values_ascii:
  "\<forall>v\<in>set vs. v < 128 \<Longrightarrow> utf8_decode_values vs = Some vs"
  by (induction vs) simp_all

lemma utf8_encode_ascii:
  "\<forall>v\<in>set vs. v < 128 \<Longrightarrow> utf8_encode vs = Some (map of_nat vs)"
  by (induction vs) simp_all

lemma utf8_decode_b64encode:
  "utf8_decode (b64encode bs) = Some (b64encode_values (map unat bs))"
proof -
  have a: "\<forall>v\<in>set (b64encode_values (map unat bs)). v < 128"
    using b64encode_values_ascii by blast
  have "unat (of_nat v :: byte) = v" if "v \<in> set (b64encode_values (map unat bs))" for v
  proof -
    from that have "v < 128" by (rule b64encode_values_ascii)
    then show ?thesis by (simp add: unat_of_nat_byte)
  qed
  then have "map unat (b64encode bs) = b64encode_values (map unat bs)"
    by (simp add: b64encode_def map_idI)
  then show ?thesis
    by (simp add: utf8_decode_def utf8_decode_values_ascii[OF a])
qed

lemma utf8_encode_b64encode:
  "utf8_encode (b64encode_values (map unat bs)) = Some (b64encode bs)"
proof -
  have a: "\<forall>v\<in>set (b64encode_values (map unat bs)). v < 128"
    using b64encode_values_ascii by blast
  show ?thesis by (simp add: utf8_encode_ascii[OF a] b64encode_def)
qed

lemma length_xor_with_key [simp]: "length (xor_with_key key data) = length data"
  by (simp add: xor_with_key_def)

lemma nth_xor_with_key:
  "i < length data \<Longrightarrow> xor_with_key key data ! i = data ! i XOR key ! (i mod length key)"
  by (simp add: xor_with_key_def nth_enumerate_eq)

lemma xor_with_key_involution: "xor_with_key key (xor_with_key key data) = data"
  by (rule nth_equalityI) (simp_all add: nth_xor_with_key xor.assoc)

lemma stretch_key_total:
  "key \<noteq> [] \<Longrightarrow> \<exists>k. stretch_key key = Some k \<and> 32 \<le> length k"
proof (induction "32 - length key" arbitrary: key rule: less_induct)
  case less
  show ?case
  proof (cases "length key < 32")
    case True
    with less.prems have "32 - length (key @ key) < 32 - length key" by (cases key) auto
    from less.hyps[OF this] less.prems True show ?thesis
      by (subst stretch_key.simps) simp
  next
    case False
    then show ?thesis by (subst stretch_key.simps) simp
  qed
qed

lemma get_encryption_key_total:
  assumes "utf8_encode SECRET_KEY = Some sk" "sk \<noteq> []"
  shows "\<exists>key. get_encryption_key SECRET_KEY = Some (Inr key) \<and> length key = 32"
  using stretch_key_total[OF assms(2)] assms(1) by (auto simp: get_encryption_key_def)

text \<open>
  Claim C2 (cipher involution and determinism). For a secret that encodes to a non-empty byte
  string (Django refuses an empty \<^verbatim>\<open>SECRET_KEY\<close>), the key is the same 32 bytes at every
  call, and for every byte string \<open>x\<close>, empty or not and whatever its bytes:
  \<^verbatim>\<open>encrypt_data\<close> returns the base64 text of \<open>x\<close> XORed with the key, byte \<open>i\<close> of \<open>x\<close> against
  byte \<open>i mod 32\<close> of the key, so the token is a function of the key and of \<open>x\<close> alone and the
  keystream starts at position 0 for every input; and \<^verbatim>\<open>decrypt_data\<close> maps that token back
  to \<open>x\<close>.
\<close>

theorem cipher_roundtrip:
  assumes "utf8_encode SECRET_KEY = Some sk" "sk \<noteq> []"
  shows "\<exists>key. get_encryption_key SECRET_KEY = Some (Inr key) \<and> length key = 32
           \<and> encrypt_data SECRET_KEY x
               = Some (Inr (b64encode_values (map unat (xor_with_key key x))))
           \<and> (\<forall>i < length x. xor_with_key key x ! i = x ! i XOR key ! (i mod 32))
           \<and> decrypt_data SECRET_KEY (b64encode_values (map unat (xor_with_key key x)))
               = Some (Inr x)"
proof -
  from get_encryption_key_total[OF assms] obtain key
    where key: "get_encryption_key SECRET_KEY = Some (Inr key)" "length key = 32" by blast
  have "encrypt_data SECRET_KEY x = Some (Inr (b64encode_values (map unat (xor_with_key key x))))"
    by (simp add: encrypt_data_def key utf8_decode_b64encode)
  moreover have "decrypt_data SECRET_KEY (b64encode_values (map unat (xor_with_key key x)))
               = Some (Inr x)"
    by (simp add: decrypt_data_def key utf8_encode_b64encode b64_roundtrip xor_with_key_involution)
  moreover have "\<forall>i < length x. xor_with_key key x ! i = x ! i XOR key ! (i mod 32)"
    using nth_xor_with_key[of _ x key] key(2) by simp
  ultimately show ?thesis using key by blast
qed

theorem cipher_roundtrip_witness:
  "\<exists>key. get_encryption_key (ascii ''k3y'') = Some (Inr key) \<and> length key = 32
           \<and> encrypt_data (ascii ''k3y'') [0, 255, 200]
               = Some (Inr (b64encode_values (map unat (xor_with_key key [0, 255, 200]))))
           \<and> (\<forall>i < length [0, 255, 200 :: byte]. xor_with_key key [0, 255, 200] ! i = [0, 255, 200] ! i XOR key ! (i mod 32))
           \<and> decrypt_data (ascii ''k3y'') (b64encode_values (map unat (xor_with_key key [0, 255, 200])))
               = Some (Inr [0, 255, 200])"
  using cipher_roundtrip[of "ascii ''k3y''" "map of_nat (ascii ''k3y'')" "[0, 255, 200]"]
  by (simp add: ascii_def)

section \<open>Properties of the chunk store\<close>

subsection \<open>Decimal indices\<close>

lemma str_nat_digits: "c \<in> set (str_nat n) \<Longrightarrow> is_digit c"
proof (induction n arbitrary: c rule: str_nat.induct)
  case (1 n)
  show ?case
  proof (cases "n < 10")
    case True
    with "1.prems" show ?thesis by (simp add: str_nat.simps is_digit_def)
  next
    case False
    with "1.prems" have "c \<in> set (str_nat (n div 10)) \<or> c = 48 + n mod 10"
      by (subst (asm) str_nat.simps) auto
    then show ?thesis
    proof
      assume "c \<in> set (str_nat (n div 10))"
      with False "1.IH" show ?thesis by simp
    next
      assume "c = 48 + n mod 10"
      moreover have "n mod 10 < 10" by simp
      ultimately show ?thesis unfolding is_digit_def by linarith
    qed
  qed
qed


lemma filter_digits_str_nat: "filter is_digit (str_nat n) = str_nat n"
  by (simp add: str_nat_digits)








subsection \<open>Chunk paths and the sort key\<close>



lemma ascii_jpg: "ascii ''.jpg'' = [46, 106, 112, 103]"
  by (simp add: ascii_def)














subsection \<open>The loops of the writer and of the reader\<close>


lemma count_from_contiguous:
  assumes "\<forall>j. i \<le> j \<and> j < n \<longrightarrow> path_exists s (chunk_path b f j)"
    and "\<not> path_exists s (chunk_path b f n)" and "i \<le> n"
  shows "count_from s b f i = Some n"
  using assms
proof (induction "n - i" arbitrary: i)
  case 0
  then have "i = n" by simp
  with 0 show ?case by (subst count_from.simps) simp
next
  case (Suc d)
  then have lt: "i < n" and ex: "path_exists s (chunk_path b f i)" by auto
  have "count_from s b f (Suc i) = Some n"
    using Suc by (intro Suc.hyps(1)) auto
  then show ?case
    using ex by (subst count_from.simps) simp
qed












subsection \<open>Writing and reading back\<close>






text \<open>
  Claim C4 (idempotent download). If the directory exists and the chunk paths of the file id
  exist for the indices below \<open>n\<close> but not for \<open>n\<close>, with \<open>n\<close> at least 1 so that chunk 0
  exists, then \<^verbatim>\<open>download_file_in_chunks\<close> returns \<open>(True, n, [])\<close> and leaves the world as it
  was: no request is sent and no file or directory changes, whatever the URL, the
  configuration and the network would do.
\<close>

theorem download_skips_existing_chunks:
  assumes "base_dir \<in> dirs (fsys w)" and "0 < n"
    and "\<forall>j<n. path_exists (fsys w) (chunk_path base_dir file_id j)"
    and "\<not> path_exists (fsys w) (chunk_path base_dir file_id n)"
  shows "download_file_in_chunks cfg http_get w url base_dir file_id file_ext
         = Some (w, (True, n, []))"
proof -
  have mk: "mkdir_p (fsys w) base_dir = Inr (fsys w)" using assms(1) by (simp add: mkdir_p_def)
  have first: "path_exists (fsys w) (chunk_path base_dir file_id 0)" using assms(2,3) by simp
  have "count_from (fsys w) base_dir file_id 0 = Some n"
    by (rule count_from_contiguous) (use assms in simp_all)
  then show ?thesis
    by (simp add: download_file_in_chunks_def mk first count_existing_chunks_def)
qed

theorem download_skips_existing_chunks_witness:
  "download_file_in_chunks default_config (\<lambda>u. RaisesOther)
     \<lparr>fsys = \<lparr>files = [[ascii ''d'', ascii ''f.part0''] \<mapsto> [1, 2],
                        [ascii ''d'', ascii ''f.part1''] \<mapsto> [3],
                        [ascii ''d'', ascii ''f.part3''] \<mapsto> [9]],
              dirs = {[ascii ''d'']}\<rparr>,
      net_requests = []\<rparr>
     (ascii ''http://h/a.png'') [ascii ''d''] (ascii ''f'') None
   = Some (\<lparr>fsys = \<lparr>files = [[ascii ''d'', ascii ''f.part0''] \<mapsto> [1, 2],
                        [ascii ''d'', ascii ''f.part1''] \<mapsto> [3],
                        [ascii ''d'', ascii ''f.part3''] \<mapsto> [9]],
              dirs = {[ascii ''d'']}\<rparr>,
      net_requests = []\<rparr>, (True, 2, []))"
  using download_skips_existing_chunks[of "[ascii ''d'']"
     "\<lparr>fsys = \<lparr>files = [[ascii ''d'', ascii ''f.part0''] \<mapsto> [1, 2],
                        [ascii ''d'', ascii ''f.part1''] \<mapsto> [3],
                        [ascii ''d'', ascii ''f.part3''] \<mapsto> [9]],
              dirs = {[ascii ''d'']}\<rparr>,
      net_requests = []\<rparr>" 2 "ascii ''f''" default_config "\<lambda>u. RaisesOther" "ascii ''http://h/a.png''" None]
  by (simp add: path_exists_def chunk_path_def str_nat.simps ascii_def less_Suc_eq numeral_2_eq_2)

text \<open>
  Claim C9 (order of the extension sidecars), evaluated on a directory that holds one chunk,
  the sidecar \<^verbatim>\<open>f.ext\<close> with the valid content \<^verbatim>\<open>.jpg\<close>, and a file named \<^verbatim>\<open>f\<close> with the
  content \<^verbatim>\<open>.png\<close>. The claim gives the dedicated sidecar the first rank, so the extension
  should be \<^verbatim>\<open>.jpg\<close>; the code tests \<^verbatim>\<open>file_ext == '.jpg'\<close> to decide whether the sidecar
  was found, reads the second file as well, and returns \<^verbatim>\<open>.png\<close>.
\<close>

theorem legacy_sidecar_overrides_jpg_sidecar:
  "assemble_chunks
     \<lparr>files = [[ascii ''d'', ascii ''f.part0''] \<mapsto> [1, 2, 3],
               [ascii ''d'', ascii ''f.ext''] \<mapsto> map of_nat (ascii ''.jpg''),
               [ascii ''d'', ascii ''f''] \<mapsto> map of_nat (ascii ''.png'')],
      dirs = {[ascii ''d'']}\<rparr>
     [ascii ''d''] (ascii ''f'') None
   = Some (Inr ([1, 2, 3], ascii ''.png''))"
  by code_simp

subsection \<open>The chunk size\<close>







section \<open>Properties of merge\_chunks\<close>


















end
